theory Spec2Isabelle
  imports Complex_Main "HOL-Library.Sublist" "HOL-Library.Multiset"
begin

section \<open>Strings: the cell and header cleaning of \<open>load_and_clean_data\<close>\<close>

text \<open>
  Python strings are modelled as \<open>string\<close>. The characters that \<open>str.strip()\<close>
  removes are those for which \<open>str.isspace()\<close> holds; in the ASCII range these are
  tab, line feed, vertical tab, form feed, carriage return, the four separators
  0x1C..0x1F and the space.
\<close>

definition dquote :: char where
  "dquote = CHR 0x22"

definition newline :: char where
  "newline = CHR 0x0A"

definition isspace :: "char \<Rightarrow> bool" where
  "isspace c = (c \<in> set [CHR 0x09, CHR 0x0A, CHR 0x0B, CHR 0x0C, CHR 0x0D,
                          CHR 0x1C, CHR 0x1D, CHR 0x1E, CHR 0x1F, CHR 0x20])"

text \<open>\<open>s.strip()\<close>: drop the leading and the trailing run of whitespace.\<close>

definition py_strip :: "string \<Rightarrow> string" where
  "py_strip s = rev (dropWhile isspace (rev (dropWhile isspace s)))"

text \<open>
  \<open>re.sub('^"|"$', '', s)\<close>. The first alternative can only match at position 0 and
  consumes a quote there. The second matches a quote that is the last character of
  the string or that stands before a final line feed (Python's \<open>$\<close>), at a position
  the first alternative has not consumed.
\<close>

definition drop_leading_quote :: "string \<Rightarrow> string" where
  "drop_leading_quote s = (case s of [] \<Rightarrow> [] | c # cs \<Rightarrow> if c = dquote then cs else s)"

definition drop_trailing_quote :: "string \<Rightarrow> string" where
  "drop_trailing_quote s =
     (case rev s of
        [] \<Rightarrow> []
      | c # cs \<Rightarrow>
          if c = dquote then rev cs
          else if c = newline then
            (case cs of [] \<Rightarrow> s | d # ds \<Rightarrow> if d = dquote then rev ds @ [newline] else s)
          else s)"

definition re_sub_quotes :: "string \<Rightarrow> string" where
  "re_sub_quotes s = drop_trailing_quote (drop_leading_quote s)"

text \<open>Line 40, on one string: \<open>.str.strip().str.replace('^"|"$', '', regex=True)\<close>.\<close>

definition clean_str :: "string \<Rightarrow> string" where
  "clean_str s = re_sub_quotes (py_strip s)"

text \<open>Line 37, on one header: \<open>col.strip().replace('"', '')\<close> removes every quote.\<close>

definition clean_header :: "string \<Rightarrow> string" where
  "clean_header col = filter (\<lambda>c. c \<noteq> dquote) (py_strip col)"





section \<open>Data frames\<close>

text \<open>
  The frame that \<open>pd.read_csv\<close> returns (line 34) is the input of the model: the
  column labels with the dtype pandas inferred for each column, and the rows. A cell
  is a string, a number or the missing value NaN. Floating-point numbers are an
  abstract linearly ordered type \<open>'n\<close>; only their order is used. Parsing a string
  as a number (\<open>pd.to_numeric\<close>) is a parameter \<open>parse\<close>, with \<open>None\<close> for a
  string that pandas coerces to NaN.
\<close>

datatype 'n cell = Str string | Num 'n | NaN

datatype dtype = Object | Numeric

datatype error = KeyError string | AttributeError | TypeError

record 'n frame =
  columns :: "(string \<times> dtype) list"
  rows :: "'n cell list list"

definition labels :: "'n frame \<Rightarrow> string list" where
  "labels df = map fst (columns df)"

definition dtypes :: "'n frame \<Rightarrow> dtype list" where
  "dtypes df = map snd (columns df)"

text \<open>Position of a label; \<open>df[name]\<close> raises KeyError when there is none.\<close>

fun col_pos :: "string list \<Rightarrow> string \<Rightarrow> nat option" where
  "col_pos [] name = None"
| "col_pos (l # ls) name = (if l = name then Some 0 else map_option Suc (col_pos ls name))"

text \<open>A row that is shorter than the header is padded with NaN, as \<open>read_csv\<close> does.\<close>

definition cell_at :: "'n cell list \<Rightarrow> nat \<Rightarrow> 'n cell" where
  "cell_at r j = (if j < length r then r ! j else NaN)"

definition column :: "nat \<Rightarrow> 'n frame \<Rightarrow> 'n cell list" where
  "column j df = map (\<lambda>r. cell_at r j) (rows df)"

subsection \<open>\<open>load_and_clean_data\<close> (lines 32 to 49)\<close>

text \<open>
  The \<open>.str\<close> accessor of an object column works on the strings and yields NaN for
  every other value.
\<close>

fun str_clean :: "'n cell \<Rightarrow> 'n cell" where
  "str_clean (Str s) = Str (clean_str s)"
| "str_clean (Num x) = NaN"
| "str_clean NaN = NaN"

text \<open>Lines 38 to 40 on one row: the cells of the object columns are cleaned.\<close>

fun clean_row :: "dtype list \<Rightarrow> 'n cell list \<Rightarrow> 'n cell list" where
  "clean_row (t # ts) (c # cs) = (if t = Object then str_clean c else c) # clean_row ts cs"
| "clean_row [] cs = cs"
| "clean_row ts [] = []"

text \<open>\<open>pd.to_numeric(..., errors='coerce')\<close> on one cell.\<close>

fun to_numeric :: "(string \<Rightarrow> 'n option) \<Rightarrow> 'n cell \<Rightarrow> 'n cell" where
  "to_numeric parse (Str s) = (case parse s of Some x \<Rightarrow> Num x | None \<Rightarrow> NaN)"
| "to_numeric parse (Num x) = Num x"
| "to_numeric parse NaN = NaN"

text \<open>\<open>df[name] = pd.to_numeric(df[name], errors='coerce')\<close> for the column at \<open>j\<close>.\<close>

definition coerce_at :: "(string \<Rightarrow> 'n option) \<Rightarrow> nat \<Rightarrow> 'n cell list \<Rightarrow> 'n cell list" where
  "coerce_at parse j r = r[j := to_numeric parse (cell_at r j)]"

definition to_numeric_col :: "(string \<Rightarrow> 'n option) \<Rightarrow> string \<Rightarrow> 'n frame \<Rightarrow> error + 'n frame" where
  "to_numeric_col parse name df =
     (case col_pos (labels df) name of
        None \<Rightarrow> Inl (KeyError name)
      | Some j \<Rightarrow>
          Inr (df\<lparr>columns := (columns df)[j := (name, Numeric)],
                  rows := map (coerce_at parse j) (rows df)\<rparr>))"

text \<open>\<open>df.dropna(subset=[...])\<close>: a row stays when none of the named cells is NaN.\<close>

definition dropna :: "string list \<Rightarrow> 'n frame \<Rightarrow> error + 'n frame" where
  "dropna names df =
     (case filter (\<lambda>name. col_pos (labels df) name = None) names of
        name # _ \<Rightarrow> Inl (KeyError name)
      | [] \<Rightarrow>
          Inr (df\<lparr>rows :=
                 filter (\<lambda>r. list_all
                                (\<lambda>name. case col_pos (labels df) name of
                                           None \<Rightarrow> True
                                         | Some j \<Rightarrow> cell_at r j \<noteq> NaN)
                                names)
                        (rows df)\<rparr>))"

text \<open>
  The loop of line 38 reads \<open>df[col].dtype\<close>; when two cleaned labels coincide,
  \<open>df[col]\<close> is a frame, which has no \<open>dtype\<close>, and the load fails.
\<close>

definition clean_headers :: "'n frame \<Rightarrow> 'n frame" where
  "clean_headers df = df\<lparr>columns := map (\<lambda>(l, t). (clean_header l, t)) (columns df)\<rparr>"

definition clean_values :: "'n frame \<Rightarrow> 'n frame" where
  "clean_values df = df\<lparr>rows := map (clean_row (dtypes df)) (rows df)\<rparr>"

definition load_and_clean_data :: "(string \<Rightarrow> 'n option) \<Rightarrow> 'n frame \<Rightarrow> error + 'n frame" where
  "load_and_clean_data parse raw =
     (let df1 = clean_headers raw in
      if \<not> distinct (labels df1) then Inl AttributeError
      else
        case to_numeric_col parse ''Average score'' (clean_values df1) of
          Inl e \<Rightarrow> Inl e
        | Inr df3 \<Rightarrow>
            (case to_numeric_col parse ''Standard deviation'' df3 of
               Inl e \<Rightarrow> Inl e
             | Inr df4 \<Rightarrow> dropna [''Average score'', ''Standard deviation''] df4))"



text \<open>The two coercions of lines 43 and 44 on one row.\<close>

definition coerce_row :: "(string \<Rightarrow> 'n option) \<Rightarrow> nat \<Rightarrow> nat \<Rightarrow> 'n cell list \<Rightarrow> 'n cell list" where
  "coerce_row parse a s r = coerce_at parse s (coerce_at parse a r)"

section \<open>The filter (lines 70 to 74)\<close>

text \<open>
  The element-wise \<open>==\<close> of a column with a scalar: a string equals a string, a
  number a number; NaN equals nothing.
\<close>

fun py_eq :: "'n cell \<Rightarrow> 'n cell \<Rightarrow> bool" where
  "py_eq (Str a) (Str b) = (a = b)"
| "py_eq (Num x) (Num y) = (x = y)"
| "py_eq _ _ = False"

text \<open>\<open>df[df[name] == v]\<close>.\<close>

definition select_eq :: "string \<Rightarrow> 'n cell \<Rightarrow> 'n frame \<Rightarrow> error + 'n frame" where
  "select_eq name v df =
     (case col_pos (labels df) name of
        None \<Rightarrow> Inl (KeyError name)
      | Some j \<Rightarrow> Inr (df\<lparr>rows := filter (\<lambda>r. py_eq (cell_at r j) v) (rows df)\<rparr>))"

text \<open>The two selections are the values of the select boxes; \<open>'All'\<close> is no constraint.\<close>

definition filtered_df :: "'n frame \<Rightarrow> 'n cell \<Rightarrow> 'n cell \<Rightarrow> error + 'n frame" where
  "filtered_df df selected_group selected_exposure =
     (case (if selected_group \<noteq> Str ''All''
            then select_eq ''Major groups'' selected_group df else Inr df) of
        Inl e \<Rightarrow> Inl e
      | Inr f \<Rightarrow>
          if selected_exposure \<noteq> Str ''All''
          then select_eq ''mean_exposure_level'' selected_exposure f else Inr f)"

text \<open>
  The value a row has under a label, and the reading of a selection as a constraint
  on it, in the words of the specification: an unconstrained field matches
  everything, a constrained field is compared for equality.
\<close>

definition value_of :: "'n frame \<Rightarrow> string \<Rightarrow> 'n cell list \<Rightarrow> 'n cell" where
  "value_of df name r = (case col_pos (labels df) name of None \<Rightarrow> NaN | Some j \<Rightarrow> cell_at r j)"

definition matches :: "'n cell \<Rightarrow> 'n cell \<Rightarrow> bool" where
  "matches selection c = (selection = Str ''All'' \<or> py_eq c selection)"

definition apply_and :: "'n frame \<Rightarrow> 'n cell \<Rightarrow> 'n cell \<Rightarrow> 'n cell list list" where
  "apply_and df a b =
     filter (\<lambda>r. matches a (value_of df ''Major groups'' r) \<and>
                 matches b (value_of df ''mean_exposure_level'' r))
            (rows df)"

section \<open>The derivations (lines 82, 105, 120)\<close>

text \<open>
  A stable sort into descending order of the key: an element is placed in front of
  the elements of the sorted rest whose key is not larger, so that among equal keys
  the earlier element stays first.
\<close>

fun insert_desc :: "('a \<Rightarrow> 'k::linorder) \<Rightarrow> 'a \<Rightarrow> 'a list \<Rightarrow> 'a list" where
  "insert_desc f x [] = [x]"
| "insert_desc f x (y # ys) = (if f y \<le> f x then x # y # ys else y # insert_desc f x ys)"

definition sort_desc :: "('a \<Rightarrow> 'k::linorder) \<Rightarrow> 'a list \<Rightarrow> 'a list" where
  "sort_desc f xs = foldr (insert_desc f) xs []"

fun is_num :: "'n cell \<Rightarrow> bool" where
  "is_num (Num x) = True"
| "is_num _ = False"


definition scored :: "nat \<Rightarrow> 'n cell list list \<Rightarrow> ('n \<times> 'n cell list) list" where
  "scored j rs = List.map_filter (\<lambda>r. case cell_at r j of Num x \<Rightarrow> Some (x, r) | _ \<Rightarrow> None) rs"

text \<open>
  \<open>df.nlargest(n, name)\<close> with the default \<open>keep='first'\<close>, as pandas documents it:
  the first \<open>n\<close> rows in descending order of the column, the first occurrences
  winning a tie; rows with a missing value come after all others. The method
  refuses a column of dtype object.
\<close>

definition nlargest :: "nat \<Rightarrow> string \<Rightarrow> ('n::linorder) frame \<Rightarrow> error + 'n frame" where
  "nlargest n name df =
     (case col_pos (labels df) name of
        None \<Rightarrow> Inl (KeyError name)
      | Some j \<Rightarrow>
          if snd (columns df ! j) = Object then Inl TypeError
          else Inr (df\<lparr>rows :=
                      take n (map snd (sort_desc fst (scored j (rows df))) @
                              filter (\<lambda>r. \<not> is_num (cell_at r j)) (rows df))\<rparr>))"

definition top_10_df :: "('n::linorder) frame \<Rightarrow> error + 'n frame" where
  "top_10_df view = nlargest 10 ''Average score'' view"

text \<open>
  \<open>series.value_counts()\<close>: the distinct values that are not missing, in order of
  first appearance, each with its number of occurrences, the largest count first.
\<close>

definition value_counts :: "'n cell list \<Rightarrow> ('n cell \<times> nat) list" where
  "value_counts vs =
     (let present = filter (\<lambda>v. v \<noteq> NaN) vs
      in sort_desc snd (map (\<lambda>v. (v, count_list present v)) (rev (remdups (rev present)))))"

definition exposure_counts :: "'n frame \<Rightarrow> error + ('n cell \<times> nat) list" where
  "exposure_counts view =
     (case col_pos (labels view) ''mean_exposure_level'' of
        None \<Rightarrow> Inl (KeyError ''mean_exposure_level'')
      | Some j \<Rightarrow> Inr (value_counts (column j view)))"

text \<open>
  The scatter plot is given the view itself and reads five of its columns: the
  points are the rows of the view, reduced to these columns.
\<close>

definition scatter_columns :: "string list" where
  "scatter_columns =
     [''Average score'', ''Standard deviation'', ''mean_exposure_level'', ''Job title'',
      ''Major groups'']"

definition scatter_points :: "'n frame \<Rightarrow> error + 'n cell list list" where
  "scatter_points view =
     (case filter (\<lambda>name. col_pos (labels view) name = None) scatter_columns of
        name # _ \<Rightarrow> Inl (KeyError name)
      | [] \<Rightarrow> Inr (map (\<lambda>r. map (\<lambda>name. value_of view name r) scatter_columns) (rows view)))"

section \<open>The conversation (lines 146 to 164)\<close>

text \<open>
  The call of the answering service either returns the text of the first choice or
  raises an exception \<open>e\<close>; \<open>Raises d\<close> stands for one with \<open>str(e) = d\<close>. The
  identifier of a turn comes from \<open>uuid.uuid4()\<close> and is an input. The world holds
  the history kept in the session state and the contexts sent to the service so far.
\<close>

datatype outcome = Returns string | Raises string

record chat_turn =
  turn_id :: string
  query :: string
  answer :: string

record world =
  chat_history :: "chat_turn list"
  grok_calls :: "string list"

definition indent :: string where
  "indent = [newline] @ ''    ''"

definition preamble :: string where
  "preamble = indent @ ''The dataset contains job titles with their major groups, average scores (0 to 1, higher means more automation exposure), mean exposure levels (e.g., '' @ [CHR 0x27] @ ''Highest exposure, low task variability (gradient 4)'' @ [CHR 0x27] @ ''), and standard deviations. Here are some sample rows:'' @ indent"

definition question_label :: string where
  "question_label = indent @ ''User question: ''"

definition head :: "nat \<Rightarrow> 'n frame \<Rightarrow> 'n frame" where
  "head n df = df\<lparr>rows := take n (rows df)\<rparr>"

text \<open>Rendering a frame as text (\<open>to_string\<close>) is a parameter.\<close>

definition context_str :: "('n frame \<Rightarrow> string) \<Rightarrow> 'n frame \<Rightarrow> string \<Rightarrow> string" where
  "context_str to_string df user_query =
     preamble @ to_string (head 5 df) @ question_label @ user_query @ indent"

definition error_answer :: "string \<Rightarrow> string" where
  "error_answer d = ''Error contacting Grok: '' @ d"

definition chat_section ::
  "('n frame \<Rightarrow> string) \<Rightarrow> (string \<Rightarrow> outcome) \<Rightarrow> string \<Rightarrow> 'n frame \<Rightarrow> string \<Rightarrow> world \<Rightarrow> world" where
  "chat_section to_string grok uid df user_query w =
     (if user_query = [] then w
      else
        let ctx = context_str to_string df user_query;
            w1 = w\<lparr>grok_calls := grok_calls w @ [ctx]\<rparr>
        in case grok ctx of
             Returns a \<Rightarrow>
               w1\<lparr>chat_history := chat_history w1 @
                    [\<lparr>turn_id = uid, query = user_query, answer = a\<rparr>]\<rparr>
           | Raises d \<Rightarrow>
               w1\<lparr>chat_history := chat_history w1 @
                    [\<lparr>turn_id = uid, query = user_query, answer = error_answer d\<rparr>]\<rparr>)"

text \<open>
  One run of the script below the sidebar: the view, the three chart inputs and the
  conversation. An error of an earlier statement ends the run before the later ones.
\<close>

record 'n page =
  view :: "'n frame"
  top_10 :: "'n frame"
  counts :: "('n cell \<times> nat) list"
  points :: "'n cell list list"
  after :: world

definition dashboard ::
  "('n frame \<Rightarrow> string) \<Rightarrow> (string \<Rightarrow> outcome) \<Rightarrow> string \<Rightarrow> ('n::linorder) frame \<Rightarrow>
   'n cell \<Rightarrow> 'n cell \<Rightarrow> string \<Rightarrow> world \<Rightarrow> error + 'n page" where
  "dashboard to_string grok uid df selected_group selected_exposure user_query w =
     (case filtered_df df selected_group selected_exposure of
        Inl e \<Rightarrow> Inl e
      | Inr v \<Rightarrow>
          (case top_10_df v of
             Inl e \<Rightarrow> Inl e
           | Inr t \<Rightarrow>
               (case exposure_counts v of
                  Inl e \<Rightarrow> Inl e
                | Inr c \<Rightarrow>
                    (case scatter_points v of
                       Inl e \<Rightarrow> Inl e
                     | Inr p \<Rightarrow>
                         Inr \<lparr>view = v, top_10 = t, counts = c, points = p,
                              after = chat_section to_string grok uid df user_query w\<rparr>))))"

section \<open>Sample inputs\<close>

text \<open>
  The three rows of the example in the specification, as a raw file with the
  formatting noise the loader is written for, and one row whose score is not a number.
\<close>

definition demo_parse :: "string \<Rightarrow> real option" where
  "demo_parse = map_of [(''0.9'', 9 / 10), (''0.3'', 3 / 10), (''0.85'', 17 / 20)]"

definition demo_raw :: "real frame" where
  \<open>demo_raw =
     \<lparr>columns = [(''Job title'', Object), ('' "Major groups"'', Object),
                 (''mean_exposure_level'', Object), (''Average score '', Object),
                 (''Standard deviation'', Numeric)],
      rows = [[Str ''Clerk'', Str '' "Clerical"'', Str ''gradient 4'', Str '' 0.9'', Num (1 / 20)],
              [Str ''Analyst'', Str ''Professional'', Str ''gradient 1'', Str ''0.3'', Num (1 / 10)],
              [Str ''Ghost'', Str ''Clerical'', Str ''gradient 2'', Str ''n/a'', Num (1 / 5)],
              [Str ''Typist'', Str ''Clerical  '', Str ''gradient 4'', Str ''"0.85"'', Num (1 / 25)]]\<rparr>\<close>

definition demo_df :: "real frame" where
  "demo_df =
     \<lparr>columns = [(''Job title'', Object), (''Major groups'', Object),
                 (''mean_exposure_level'', Object), (''Average score'', Numeric),
                 (''Standard deviation'', Numeric)],
      rows = [[Str ''Clerk'', Str ''Clerical'', Str ''gradient 4'', Num (9 / 10), Num (1 / 20)],
              [Str ''Analyst'', Str ''Professional'', Str ''gradient 1'', Num (3 / 10), Num (1 / 10)],
              [Str ''Typist'', Str ''Clerical'', Str ''gradient 4'', Num (17 / 20), Num (1 / 25)]]\<rparr>"




text \<open>A rendering that lists the job titles, a service that is down, and a session with one turn.\<close>

definition demo_to_string :: "real frame \<Rightarrow> string" where
  "demo_to_string df =
     concat (map (\<lambda>r. case cell_at r 0 of Str s \<Rightarrow> s @ '';'' | _ \<Rightarrow> ''?;'') (rows df))"

definition demo_grok_down :: "string \<Rightarrow> outcome" where
  "demo_grok_down ctx = Raises ''timeout''"

definition demo_world :: world where
  "demo_world =
     \<lparr>chat_history = [\<lparr>turn_id = ''id-1'', query = ''hello'', answer = ''hi''\<rparr>],
      grok_calls = [''earlier context'']\<rparr>"

section \<open>Facts about the string cleaning\<close>












lemmas str_defs = clean_str_def py_strip_def re_sub_quotes_def drop_leading_quote_def
  drop_trailing_quote_def isspace_def dquote_def newline_def clean_header_def

lemma demo_load: "load_and_clean_data demo_parse demo_raw = Inr demo_df"
  by (simp add: load_and_clean_data_def demo_raw_def demo_df_def demo_parse_def clean_headers_def
      clean_values_def labels_def dtypes_def to_numeric_col_def dropna_def coerce_at_def
      cell_at_def str_defs)

section \<open>Facts about the loader and the filter\<close>

lemmas frame_defs = labels_def dtypes_def cell_at_def column_def select_eq_def filtered_df_def
  nlargest_def top_10_df_def scored_def sort_desc_def value_counts_def exposure_counts_def
  scatter_points_def scatter_columns_def value_of_def List.map_filter_simps

lemma col_pos_Some: "col_pos ls name = Some j \<Longrightarrow> j < length ls \<and> ls ! j = name"
  by (induction ls arbitrary: j) (auto split: if_splits)

lemma col_pos_None: "(col_pos ls name = None) = (name \<notin> set ls)"
  by (induction ls) auto




lemma labels_update:
  assumes "col_pos (labels df) name = Some j"
  shows "map fst ((columns df)[j := (name, t)]) = labels df"
proof -
  from assms have "j < length (labels df)" "labels df ! j = name" using col_pos_Some by metis+
  then show ?thesis
    by (simp add: labels_def map_update list_update_same_conv)
qed

lemma load_Inr:
  assumes "load_and_clean_data parse raw = Inr df"
  obtains a s where
    "col_pos (labels df) ''Average score'' = Some a"
    "col_pos (labels df) ''Standard deviation'' = Some s"
    "a \<noteq> s"
    "labels df = map clean_header (labels raw)"
    "distinct (labels df)"
    "columns df = (columns (clean_headers raw))[a := (''Average score'', Numeric),
                                               s := (''Standard deviation'', Numeric)]"
    "rows df = filter (\<lambda>r. cell_at r a \<noteq> NaN \<and> cell_at r s \<noteq> NaN)
                 (map (coerce_row parse a s) (rows (clean_values raw)))"
proof -
  define df1 where "df1 = clean_headers raw"
  define df2 where "df2 = clean_values df1"
  have l1: "labels df1 = map clean_header (labels raw)"
    by (simp add: df1_def clean_headers_def labels_def case_prod_unfold comp_def)
  have l2: "labels df2 = labels df1" by (simp add: df2_def clean_values_def labels_def)
  have r2: "rows df2 = rows (clean_values raw)"
    by (simp add: df2_def df1_def clean_values_def clean_headers_def dtypes_def case_prod_unfold comp_def)
  have c2: "columns df2 = columns (clean_headers raw)"
    by (simp add: df2_def df1_def clean_values_def)
  from assms have d: "distinct (labels df1)"
    by (auto simp: load_and_clean_data_def Let_def df1_def split: if_splits)
  from assms d obtain df3 where s3: "to_numeric_col parse ''Average score'' df2 = Inr df3"
    by (auto simp: load_and_clean_data_def Let_def df1_def df2_def split: if_splits sum.splits)
  from assms d s3 obtain df4 where s4: "to_numeric_col parse ''Standard deviation'' df3 = Inr df4"
    and s5: "dropna [''Average score'', ''Standard deviation''] df4 = Inr df"
    by (auto simp: load_and_clean_data_def Let_def df1_def df2_def split: if_splits sum.splits)
  from s3 obtain a where a: "col_pos (labels df2) ''Average score'' = Some a"
    and df3: "df3 = df2\<lparr>columns := (columns df2)[a := (''Average score'', Numeric)],
                         rows := map (coerce_at parse a) (rows df2)\<rparr>"
    by (auto simp: to_numeric_col_def split: option.splits)
  have l3: "labels df3 = labels df2"
    using labels_update[OF a] by (simp add: df3 labels_def)
  from s4 obtain s where s: "col_pos (labels df3) ''Standard deviation'' = Some s"
    and df4: "df4 = df3\<lparr>columns := (columns df3)[s := (''Standard deviation'', Numeric)],
                         rows := map (coerce_at parse s) (rows df3)\<rparr>"
    by (auto simp: to_numeric_col_def split: option.splits)
  have l4: "labels df4 = labels df3"
    using labels_update[OF s] by (simp add: df4 labels_def)
  from s5 a s l3 l4 have df: "df = df4\<lparr>rows := filter (\<lambda>r. cell_at r a \<noteq> NaN \<and> cell_at r s \<noteq> NaN) (rows df4)\<rparr>"
    by (auto simp: dropna_def)
  have l5: "labels df = labels df1" using l2 l3 l4 by (simp add: df labels_def)
  have ne: "a \<noteq> s"
  proof
    assume "a = s"
    with col_pos_Some[OF a] col_pos_Some[OF s] l3 show False by simp
  qed
  show ?thesis
  proof (rule that[of a s])
    show "col_pos (labels df) ''Average score'' = Some a" using a l5 l2 by simp
    show "col_pos (labels df) ''Standard deviation'' = Some s" using s l5 l2 l3 by simp
    show "a \<noteq> s" by (rule ne)
    show "labels df = map clean_header (labels raw)" using l5 l1 by simp
    show "distinct (labels df)" using d l5 by simp
    show "columns df = (columns (clean_headers raw))[a := (''Average score'', Numeric),
                                               s := (''Standard deviation'', Numeric)]"
      by (simp add: df df4 df3 c2)
    show "rows df = filter (\<lambda>r. cell_at r a \<noteq> NaN \<and> cell_at r s \<noteq> NaN)
                 (map (coerce_row parse a s) (rows (clean_values raw)))"
      by (simp add: df df4 df3 r2 coerce_row_def[abs_def] comp_def)
  qed
qed

lemma rows_clean_values: "rows (clean_values raw) = map (clean_row (dtypes raw)) (rows raw)"
  by (simp add: clean_values_def)

lemma filtered_df_columns:
  "filtered_df df a b = Inr v \<Longrightarrow> columns v = columns df"
  by (auto simp: filtered_df_def select_eq_def labels_def split: if_splits option.splits sum.splits)

lemma filtered_df_rows:
  assumes "filtered_df df a b = Inr v"
  shows "rows v = apply_and df a b"
proof -
  have g: "rows f = filter (\<lambda>r. matches a (value_of df ''Major groups'' r)) (rows df) \<and>
           labels f = labels df"
    if "(if a \<noteq> Str ''All'' then select_eq ''Major groups'' a df else Inr df) = Inr f" for f
    using that
    by (cases "col_pos (labels df) ''Major groups''")
       (auto simp: select_eq_def matches_def value_of_def labels_def split: if_splits)
  have e: "rows v = filter (\<lambda>r. matches b (value_of f ''mean_exposure_level'' r)) (rows f)"
    if "(if b \<noteq> Str ''All'' then select_eq ''mean_exposure_level'' b f else Inr f) = Inr v" for f
    using that
    by (cases "col_pos (labels f) ''mean_exposure_level''")
       (auto simp: select_eq_def matches_def value_of_def labels_def split: if_splits)
  from assms obtain f
    where f: "(if a \<noteq> Str ''All'' then select_eq ''Major groups'' a df else Inr df) = Inr f"
      and v: "(if b \<noteq> Str ''All'' then select_eq ''mean_exposure_level'' b f else Inr f) = Inr v"
    by (auto simp: filtered_df_def split: sum.splits)
  have "value_of f = value_of df" using g[OF f] by (simp add: value_of_def fun_eq_iff)
  with g[OF f] e[OF v] show ?thesis
    by (simp add: apply_and_def conj_commute)
qed

lemma load_score_numeric:
  assumes "load_and_clean_data parse raw = Inr df"
    and "col_pos (labels df) ''Average score'' = Some a"
  shows "snd (columns df ! a) = Numeric"
proof -
  from assms(1) obtain a' s where a': "col_pos (labels df) ''Average score'' = Some a'"
    and ne: "a' \<noteq> s"
    and c: "columns df = (columns (clean_headers raw))[a' := (''Average score'', Numeric),
                                               s := (''Standard deviation'', Numeric)]"
    by (rule load_Inr)
  from a' assms(2) have [simp]: "a' = a" by simp
  from col_pos_Some[OF assms(2)] have "a < length (columns df)" by (simp add: labels_def)
  then have "a < length (columns (clean_headers raw))" by (simp add: c)
  with ne show ?thesis by (simp add: c)
qed

lemma py_eq_imp_eq: "py_eq c v \<Longrightarrow> c = v"
  by (cases c; cases v) auto

lemma filtered_df_total:
  assumes "''Major groups'' \<in> set (labels df)" "''mean_exposure_level'' \<in> set (labels df)"
  shows "\<exists>v. filtered_df df g e = Inr v"
proof -
  from assms obtain i j where "col_pos (labels df) ''Major groups'' = Some i"
    "col_pos (labels df) ''mean_exposure_level'' = Some j"
    using col_pos_None by (metis not_Some_eq)
  then show ?thesis
    by (simp add: filtered_df_def select_eq_def labels_def)
qed

lemma derivations_of_empty_view:
  assumes "load_and_clean_data parse raw = Inr df"
    and "set scatter_columns \<subseteq> set (labels df)"
    and "filtered_df df g e = Inr v" and "rows v = []"
  shows "top_10_df v = Inr v" "exposure_counts v = Inr []" "scatter_points v = Inr []"
proof -
  have cv: "columns v = columns df" using assms(3) by (rule filtered_df_columns)
  then have lv: "labels v = labels df" by (simp add: labels_def)
  from assms(1) obtain a s where a: "col_pos (labels df) ''Average score'' = Some a"
    by (rule load_Inr)
  have num: "snd (columns v ! a) = Numeric" using load_score_numeric[OF assms(1) a] cv by simp
  have "v\<lparr>rows := []\<rparr> = v" using assms(4) by simp
  then show "top_10_df v = Inr v"
    using a num assms(4) by (simp add: top_10_df_def nlargest_def lv scored_def sort_desc_def List.map_filter_simps)
  from assms(2) obtain j where j: "col_pos (labels df) ''mean_exposure_level'' = Some j"
    using col_pos_None[of "labels df" "''mean_exposure_level''"] by (auto simp: scatter_columns_def)
  then show "exposure_counts v = Inr []"
    using assms(4) by (simp add: exposure_counts_def lv column_def value_counts_def sort_desc_def)
  have "filter (\<lambda>name. col_pos (labels v) name = None) scatter_columns = []"
    using assms(2) by (auto simp: filter_empty_conv col_pos_None lv)
  then show "scatter_points v = Inr []"
    using assms(4) by (simp add: scatter_points_def)
qed

section \<open>Facts about the descending sort and the top rows\<close>
















section \<open>Facts about a second load\<close>








section \<open>The cell cleaning\<close>




section \<open>The loader\<close>



text \<open>
  Claim C10. The rows of the loaded frame are a subsequence of the rows of the input,
  each row cleaned and coerced: rows are dropped, never reordered.
\<close>

theorem order_preserved:
  assumes "load_and_clean_data parse raw = Inr df"
  shows "\<exists>a s. col_pos (labels df) ''Average score'' = Some a \<and>
               col_pos (labels df) ''Standard deviation'' = Some s \<and>
               subseq (rows df)
                 (map (\<lambda>r. coerce_row parse a s (clean_row (dtypes raw) r)) (rows raw))"
proof -
  from assms obtain a s where a: "col_pos (labels df) ''Average score'' = Some a"
    and s: "col_pos (labels df) ''Standard deviation'' = Some s"
    and r: "rows df = filter (\<lambda>r. cell_at r a \<noteq> NaN \<and> cell_at r s \<noteq> NaN)
                 (map (coerce_row parse a s) (rows (clean_values raw)))"
    by (rule load_Inr)
  have "subseq (rows df) (map (coerce_row parse a s) (rows (clean_values raw)))"
    unfolding r by (rule subseq_filter_left)
  with a s show ?thesis by (auto simp: rows_clean_values comp_def)
qed

theorem order_preserved_witness:
  "(\<exists>a s. col_pos (labels demo_df) ''Average score'' = Some a \<and>
          col_pos (labels demo_df) ''Standard deviation'' = Some s \<and>
          subseq (rows demo_df)
            (map (\<lambda>r. coerce_row demo_parse a s (clean_row (dtypes demo_raw) r)) (rows demo_raw))) \<and>
   map (\<lambda>r. cell_at r 0) (rows demo_raw) = [Str ''Clerk'', Str ''Analyst'', Str ''Ghost'', Str ''Typist''] \<and>
   map (\<lambda>r. cell_at r 0) (rows demo_df) = [Str ''Clerk'', Str ''Analyst'', Str ''Typist'']"
proof -
  have n: "map (\<lambda>r. cell_at r 0) (rows demo_raw) =
             [Str ''Clerk'', Str ''Analyst'', Str ''Ghost'', Str ''Typist''] \<and>
           map (\<lambda>r. cell_at r 0) (rows demo_df) = [Str ''Clerk'', Str ''Analyst'', Str ''Typist'']"
    by (simp add: demo_raw_def demo_df_def cell_at_def)
  from order_preserved [OF demo_load] n show ?thesis by (rule conjI)
qed

section \<open>Loading twice\<close>




section \<open>The filter\<close>

text \<open>
  Claim C4. Filtering by the major group and then filtering the result by the exposure
  level is the same as one filter with both selections, errors included; and the view
  of a filter with both selections holds, in the order of the frame, the rows that
  match the first selection and the second.
\<close>

theorem filter_composition:
  "filtered_df df a b =
     (case filtered_df df a (Str ''All'') of
        Inl e \<Rightarrow> Inl e
      | Inr v \<Rightarrow> filtered_df v (Str ''All'') b) \<and>
   (\<forall>v. filtered_df df a b = Inr v \<longrightarrow> columns v = columns df \<and> rows v = apply_and df a b)"
proof -
  have "filtered_df df a b =
     (case filtered_df df a (Str ''All'') of
        Inl e \<Rightarrow> Inl e
      | Inr v \<Rightarrow> filtered_df v (Str ''All'') b)"
    by (simp add: filtered_df_def split: sum.splits)
  then show ?thesis using filtered_df_columns filtered_df_rows by blast
qed

theorem filter_composition_witness:
  "filtered_df demo_df (Str ''Clerical'') (Str ''gradient 4'') =
     Inr (demo_df\<lparr>rows := [rows demo_df ! 0, rows demo_df ! 2]\<rparr>) \<and>
   apply_and demo_df (Str ''Clerical'') (Str ''gradient 4'') = [rows demo_df ! 0, rows demo_df ! 2]"
proof -
  have h: "filtered_df demo_df (Str ''Clerical'') (Str ''gradient 4'') =
     Inr (demo_df\<lparr>rows := [rows demo_df ! 0, rows demo_df ! 2]\<rparr>)"
    by (simp add: demo_df_def frame_defs)
  from filter_composition [of demo_df "Str ''Clerical''" "Str ''gradient 4''"] h
  show ?thesis by simp
qed

section \<open>The top ten\<close>




section \<open>The empty view\<close>

text \<open>
  Claim C7. For a loaded frame that has the five columns the charts read: when a
  selection other than \<open>'All'\<close> names a value that no row has in its column, the
  filter returns a view without rows, and not an error; and on a view without rows
  the top ten are the empty view itself, the exposure counts are the empty table and
  the scatter plot has no points, each returned without an error.
\<close>

theorem absent_selection_gives_empty_results:
  assumes "load_and_clean_data parse raw = Inr df"
    and "set scatter_columns \<subseteq> set (labels df)"
  shows "((g \<noteq> Str ''All'' \<and> g \<notin> set (map (value_of df ''Major groups'') (rows df))) \<or>
          (e \<noteq> Str ''All'' \<and> e \<notin> set (map (value_of df ''mean_exposure_level'') (rows df)))
          \<longrightarrow> (\<exists>v. filtered_df df g e = Inr v \<and> rows v = [])) \<and>
         (\<forall>v. filtered_df df g e = Inr v \<and> rows v = [] \<longrightarrow>
              top_10_df v = Inr v \<and> exposure_counts v = Inr [] \<and> scatter_points v = Inr [])"
proof -
  have first: "\<exists>v. filtered_df df g e = Inr v \<and> rows v = []"
    if absent: "(g \<noteq> Str ''All'' \<and> g \<notin> set (map (value_of df ''Major groups'') (rows df))) \<or>
          (e \<noteq> Str ''All'' \<and> e \<notin> set (map (value_of df ''mean_exposure_level'') (rows df)))"
  proof -
    from assms(2) have "''Major groups'' \<in> set (labels df)" "''mean_exposure_level'' \<in> set (labels df)"
      by (auto simp: scatter_columns_def)
    then obtain v where v: "filtered_df df g e = Inr v" using filtered_df_total by blast
    have "apply_and df g e = []"
      using absent by (auto simp: apply_and_def filter_empty_conv matches_def dest: py_eq_imp_eq)
    with v filtered_df_rows[OF v] show ?thesis by simp
  qed
  have second: "top_10_df v = Inr v \<and> exposure_counts v = Inr [] \<and> scatter_points v = Inr []"
    if "filtered_df df g e = Inr v \<and> rows v = []" for v
    using derivations_of_empty_view[OF assms, of g e v] that by simp
  from first second show ?thesis by blast
qed

theorem absent_selection_gives_empty_results_witness:
  "filtered_df demo_df (Str ''Managers'') (Str ''All'') = Inr (demo_df\<lparr>rows := []\<rparr>) \<and>
   top_10_df (demo_df\<lparr>rows := []\<rparr>) = Inr (demo_df\<lparr>rows := []\<rparr>) \<and>
   exposure_counts (demo_df\<lparr>rows := []\<rparr>) = Inr [] \<and>
   scatter_points (demo_df\<lparr>rows := []\<rparr>) = Inr []"
proof -
  have c: "set scatter_columns \<subseteq> set (labels demo_df)"
    by (simp add: scatter_columns_def demo_df_def labels_def)
  have f: "filtered_df demo_df (Str ''Managers'') (Str ''All'') = Inr (demo_df\<lparr>rows := []\<rparr>)"
    by (simp add: demo_df_def frame_defs)
  have r: "rows (demo_df\<lparr>rows := []\<rparr>) = []" by simp
  from absent_selection_gives_empty_results [OF demo_load c, of "Str ''Managers''" "Str ''All''"] f r
  show ?thesis by simp
qed

section \<open>The conversation\<close>

text \<open>
  Claim C1. Whatever the history, a non-empty query whose call of the answering
  service raises an exception with description \<open>d\<close> extends the history by exactly
  one turn: the earlier turns are unchanged, and the new last turn holds the query
  and the answer \<open>Error contacting Grok: d\<close>. The section returns the new state; the
  exception goes no further.
\<close>

theorem chat_failure_isolated:
  assumes "user_query \<noteq> []"
    and "grok (context_str to_string df user_query) = Raises d"
  shows "length (chat_history (chat_section to_string grok uid df user_query w)) =
           length (chat_history w) + 1 \<and>
         take (length (chat_history w))
              (chat_history (chat_section to_string grok uid df user_query w)) =
           chat_history w \<and>
         last (chat_history (chat_section to_string grok uid df user_query w)) =
           \<lparr>turn_id = uid, query = user_query, answer = ''Error contacting Grok: '' @ d\<rparr>"
  using assms by (simp add: chat_section_def Let_def error_answer_def)

theorem chat_failure_isolated_witness:
  "length (chat_history (chat_section demo_to_string demo_grok_down ''id-2'' demo_df
             ''Which job?'' demo_world)) = 2 \<and>
   take 1 (chat_history (chat_section demo_to_string demo_grok_down ''id-2'' demo_df
             ''Which job?'' demo_world)) = chat_history demo_world \<and>
   last (chat_history (chat_section demo_to_string demo_grok_down ''id-2'' demo_df
             ''Which job?'' demo_world)) =
     \<lparr>turn_id = ''id-2'', query = ''Which job?'', answer = ''Error contacting Grok: timeout''\<rparr>"
proof -
  have q: "''Which job?'' \<noteq> []" by simp
  have g: "demo_grok_down (context_str demo_to_string demo_df ''Which job?'') = Raises ''timeout''"
    by (simp add: demo_grok_down_def)
  show ?thesis
    using chat_failure_isolated [where grok = demo_grok_down and to_string = demo_to_string
        and df = demo_df and uid = "''id-2''" and w = demo_world, OF q g]
    by (simp add: demo_world_def)
qed



text \<open>
  Claim C9. In a run of the script that reaches the conversation with a non-empty
  query, whatever the two selections are, the one context sent to the service is the
  fixed preamble, then the rendering of the first five rows of the loaded frame (not
  of the view), then the fixed label introducing the question, then the query as
  typed, then the closing line break and indentation of the template.
\<close>

theorem context_sent:
  assumes "dashboard to_string grok uid df selected_group selected_exposure user_query w = Inr page"
    and "user_query \<noteq> []"
  shows "grok_calls (after page) =
           grok_calls w @
           [preamble @ to_string (df\<lparr>rows := take 5 (rows df)\<rparr>) @ question_label @ user_query @ indent]"
  using assms
  by (auto simp: dashboard_def chat_section_def Let_def context_str_def head_def
      split: sum.splits outcome.splits)

theorem context_sent_witness:
  "\<exists>page. dashboard demo_to_string demo_grok_down ''id-2'' demo_df (Str ''Clerical'') (Str ''All'')
             ''Which job?'' demo_world = Inr page \<and>
          map (\<lambda>r. cell_at r 0) (rows (view page)) = [Str ''Clerk'', Str ''Typist''] \<and>
          grok_calls (after page) =
            [''earlier context'',
             preamble @ ''Clerk;Analyst;Typist;'' @ question_label @ ''Which job?'' @ indent]"
proof -
  obtain page where p: "dashboard demo_to_string demo_grok_down ''id-2'' demo_df (Str ''Clerical'')
      (Str ''All'') ''Which job?'' demo_world = Inr page"
    and v: "map (\<lambda>r. cell_at r 0) (rows (view page)) = [Str ''Clerk'', Str ''Typist'']"
    by (simp add: dashboard_def demo_df_def frame_defs)
  have q: "''Which job?'' \<noteq> []" by simp
  have "demo_to_string (demo_df\<lparr>rows := take 5 (rows demo_df)\<rparr>) = ''Clerk;Analyst;Typist;''"
    by (simp add: demo_to_string_def demo_df_def cell_at_def)
  with context_sent [OF p q] p v show ?thesis
    by (simp add: demo_world_def)
qed

end
